theory Spec2Isabelle
  imports Main "HOL-Library.AList"
begin

section \<open>The UISP REST client (\<^verbatim>\<open>src/uisp_api/uisp.py\<close>)\<close>

text \<open>
  The module is one class, \<^verbatim>\<open>UispApi\<close>, which holds five configuration attributes and
  turns each of its read operations into one call of \<^verbatim>\<open>requests.get\<close>. The embedding
  keeps the class as a record, the exceptions as values of a sum type, and the network
  as a parameter: a function from the requests already issued and the request at hand
  to either a transport failure or a response. Every method takes the state (the object
  and the log of requests handed to \<^verbatim>\<open>requests.get\<close>) and returns its outcome with
  the state afterwards. The \<^verbatim>\<open>logger.debug\<close> lines only format their arguments and have
  no part in any result; they are left out.
\<close>

subsection \<open>Python values, exceptions, requests and responses\<close>

text \<open>
  What \<^verbatim>\<open>Response.json()\<close> can return, plus the raw stream object that the NMS helper
  hands back for a return type other than \<^verbatim>\<open>'json'\<close>. A dict is the list of its items in
  insertion order. A float is carried as its literal and never computed with.
  \<open>PNone\<close> is Python's \<^verbatim>\<open>None\<close>: both JSON \<^verbatim>\<open>null\<close> and the value of a function that
  falls off its end.
\<close>

datatype pyval =
    PNone
  | PBool bool
  | PInt int
  | PFloat string
  | PStr string
  | PList "pyval list"
  | PDict "(string \<times> pyval) list"
  | PRaw string

text \<open>
  The exceptions that can leave the module: the two the module raises itself, those of
  subscripting a value, the one of \<^verbatim>\<open>Response.json()\<close> on a body that is not JSON, and
  whatever \<^verbatim>\<open>requests.get\<close> raises when no response arrives.
\<close>

datatype error =
    APIException string
  | RuntimeError string
  | KeyError string
  | TypeError
  | JSONDecodeError
  | RequestException string

text \<open>The arguments of one \<^verbatim>\<open>requests.get(url, headers=..., params=...)\<close> call.\<close>

record request =
  url :: string
  headers :: "(string \<times> string) list"
  params :: "(string \<times> string) list option"

text \<open>
  The parts of a \<^verbatim>\<open>requests.Response\<close> the module reads: \<^verbatim>\<open>status_code\<close>, the outcome
  of \<^verbatim>\<open>json()\<close> (\<open>None\<close> when it raises) and \<^verbatim>\<open>raw\<close>.
\<close>

record response =
  status_code :: int
  json :: "pyval option"
  raw :: string

type_synonym transport = "request list \<Rightarrow> request \<Rightarrow> error + response"

subsection \<open>The client object\<close>

record UispApi =
  secure :: bool
  server :: string
  api_version_crm :: string
  api_version_nms :: string
  app_key :: string

record state =
  self :: UispApi
  sent :: "request list"

text \<open>\<^verbatim>\<open>__init__(self, uisp_server, app_key, crm_version, nms_version, secure)\<close>\<close>

definition init :: "string \<Rightarrow> string \<Rightarrow> string \<Rightarrow> string \<Rightarrow> bool \<Rightarrow> UispApi" where
  "init uisp_server key crm_version nms_version sec =
     \<lparr>secure = sec, server = uisp_server, api_version_crm = crm_version,
      api_version_nms = nms_version, app_key = key\<rparr>"

text \<open>The constructor with its defaults: \<^verbatim>\<open>crm_version='v1.0', nms_version='v2.1', secure=True\<close>.\<close>

definition init_default :: "string \<Rightarrow> string \<Rightarrow> UispApi" where
  "init_default uisp_server key = init uisp_server key ''v1.0'' ''v2.1'' True"

definition new_client :: "UispApi \<Rightarrow> state" where
  "new_client c = \<lparr>self = c, sent = []\<rparr>"

subsection \<open>The CRM side\<close>

definition build_url_crm :: "UispApi \<Rightarrow> string \<Rightarrow> string" where
  "build_url_crm c sub_path =
     (let protocol = (if secure c then ''https'' else ''http'')
      in protocol @ ''://'' @ server c @ ''/crm/api/'' @ api_version_crm c @ ''/'' @ sub_path)"

text \<open>
  \<^verbatim>\<open>_call_api_crm\<close>. The message of the second \<^verbatim>\<open>APIException\<close> is a plain string in the
  source (it has no \<^verbatim>\<open>f\<close> prefix), so the braces stay in it. With a return type other
  than \<^verbatim>\<open>'json'\<close> the function falls off its end after the request and returns \<^verbatim>\<open>None\<close>.
\<close>

definition call_api_crm ::
  "transport \<Rightarrow> string \<Rightarrow> string \<Rightarrow> (string \<times> string) list option \<Rightarrow> string \<Rightarrow> state
     \<Rightarrow> (error + pyval) \<times> state" where
  "call_api_crm t call_method api_call parameters return_type s =
     (if call_method \<notin> set [''delete'', ''get'', ''patch'', ''post'']
      then (Inl (APIException (''Unknown call method: '' @ call_method)), s)
      else
        let api_url = build_url_crm (self s) api_call;
            hdrs = [(''Content-Type'', ''application/json''),
                    (''X-Auth-App-Key'', app_key (self s))]
        in if call_method = ''get''
           then
             let rq = \<lparr>url = api_url, headers = hdrs, params = parameters\<rparr>;
                 s' = s\<lparr>sent := sent s @ [rq]\<rparr>
             in (case t (sent s) rq of
                   Inl e \<Rightarrow> (Inl e, s')
                 | Inr result \<Rightarrow>
                     if return_type = ''json''
                     then (case json result of
                             None \<Rightarrow> (Inl JSONDecodeError, s')
                           | Some j \<Rightarrow> (Inr j, s'))
                     else (Inr PNone, s'))
           else (Inl (APIException ''Unimplemented call method: {call_method}''), s))"

subsection \<open>The NMS side\<close>

definition build_url_nms :: "UispApi \<Rightarrow> string \<Rightarrow> string" where
  "build_url_nms c sub_path =
     (let protocol = (if secure c then ''https'' else ''http'');
          u = protocol @ ''://'' @ server c @ ''/nms/api/'' @ api_version_nms c @ ''/'' @ sub_path
      in u)"

text \<open>
  \<^verbatim>\<open>_call_api_nms\<close>. The parameter \<^verbatim>\<open>call_method\<close> is never read. The message of the
  \<^verbatim>\<open>RuntimeError\<close> is a plain string in the source, so the placeholder stays in it.
\<close>

definition nms_error_message :: string where
  "nms_error_message = ''Got error '{r.status_code}' while executing request''"

definition call_api_nms ::
  "transport \<Rightarrow> string \<Rightarrow> string \<Rightarrow> (string \<times> string) list option \<Rightarrow> string \<Rightarrow> state
     \<Rightarrow> (error + pyval) \<times> state" where
  "call_api_nms t call_method api_call parameters return_type s =
     (let api_url = build_url_nms (self s) api_call;
          hdrs = [(''accept'', ''application/json''),
                  (''x-auth-token'', app_key (self s))];
          rq = \<lparr>url = api_url, headers = hdrs, params = parameters\<rparr>;
          s' = s\<lparr>sent := sent s @ [rq]\<rparr>
      in (case t (sent s) rq of
            Inl e \<Rightarrow> (Inl e, s')
          | Inr req \<Rightarrow>
              if status_code req = 200
              then (if return_type = ''json''
                    then (case json req of
                            None \<Rightarrow> (Inl JSONDecodeError, s')
                          | Some j \<Rightarrow> (Inr j, s'))
                    else (Inr (PRaw (raw req)), s'))
              else (Inl (RuntimeError nms_error_message), s')))"

subsection \<open>Subscripting and URL quoting\<close>

text \<open>
  \<^verbatim>\<open>value[key]\<close> with a string key: a dict looks the key up and raises \<^verbatim>\<open>KeyError\<close> when
  it is missing; every other value raises \<^verbatim>\<open>TypeError\<close>.
\<close>

fun subscript :: "pyval \<Rightarrow> string \<Rightarrow> error + pyval" where
  "subscript (PDict kvs) k = (case map_of kvs k of None \<Rightarrow> Inl (KeyError k) | Some v \<Rightarrow> Inr v)"
| "subscript _ k = Inl TypeError"

text \<open>
  \<^verbatim>\<open>urllib.parse.quote_plus\<close> belongs to Python's standard library. The model follows the
  library's code on the UTF-8 bytes of the string: \<^verbatim>\<open>quote\<close> keeps the letters, the digits,
  \<^verbatim>\<open>_.-~\<close> and the characters named safe, and writes every other byte as \<^verbatim>\<open>%XX\<close> with
  upper-case hexadecimal digits; \<^verbatim>\<open>quote_plus\<close> calls it with nothing safe when the
  string has no space, and otherwise with the space safe and then replaces each space
  by \<^verbatim>\<open>+\<close>.
\<close>

definition always_safe :: string where
  "always_safe = ''ABCDEFGHIJKLMNOPQRSTUVWXYZabcdefghijklmnopqrstuvwxyz0123456789_.-~''"

definition hex_digit :: "nat \<Rightarrow> char" where
  "hex_digit n = ''0123456789ABCDEF'' ! n"

definition percent :: "char \<Rightarrow> string" where
  "percent c = [CHR ''%'', hex_digit (of_char c div 16), hex_digit (of_char c mod 16)]"

definition quote :: "string \<Rightarrow> string \<Rightarrow> string" where
  "quote s safe =
     concat (map (\<lambda>c. if c \<in> set always_safe \<union> set safe then [c] else percent c) s)"

definition quote_plus :: "string \<Rightarrow> string" where
  "quote_plus s =
     (if CHR '' '' \<notin> set s then quote s []
      else map (\<lambda>c. if c = CHR '' '' then CHR ''+'' else c) (quote s '' ''))"

text \<open>
  What \<open>quote_plus\<close> writes for one byte; \<open>quote_plus_concat\<close> below shows that the
  result is these pieces in order.
\<close>

definition qp_char :: "char \<Rightarrow> string" where
  "qp_char c =
     (if c = CHR '' '' then ''+'' else if c \<in> set always_safe then [c] else percent c)"

subsection \<open>The public operations\<close>

definition version_get :: "transport \<Rightarrow> state \<Rightarrow> (error + pyval) \<times> state" where
  "version_get t s =
     (case call_api_crm t ''get'' ''version'' None ''json'' s of
        (Inl e, s') \<Rightarrow> (Inl e, s')
      | (Inr result, s') \<Rightarrow> (subscript result ''version'', s'))"

text \<open>
  \<^verbatim>\<open>device_list(**kwargs)\<close> copies the keyword arguments into a fresh dict, one
  \<^verbatim>\<open>params[key] = value\<close> at a time. Storing into a dict replaces the value of a key
  that is there and appends a new key at the end, which is \<open>AList.update\<close>.
\<close>

definition device_list ::
  "transport \<Rightarrow> (string \<times> string) list \<Rightarrow> state \<Rightarrow> (error + pyval) \<times> state" where
  "device_list t kwargs s =
     (let ps = fold (\<lambda>(key, val) ps. AList.update key val ps) kwargs []
      in call_api_nms t ''get'' ''devices'' (Some ps) ''json'' s)"

definition get_device_by_mac :: "transport \<Rightarrow> string \<Rightarrow> state \<Rightarrow> (error + pyval) \<times> state" where
  "get_device_by_mac t mac s =
     call_api_nms t ''get'' (''devices/mac/'' @ quote_plus mac) None ''json'' s"

definition get_device_creds :: "transport \<Rightarrow> string \<Rightarrow> state \<Rightarrow> (error + pyval) \<times> state" where
  "get_device_creds t device_id s =
     call_api_nms t ''get'' (''vault/'' @ device_id @ ''/credentials'') None ''json'' s"

definition get_gateways :: "transport \<Rightarrow> state \<Rightarrow> (error + pyval) \<times> state" where
  "get_gateways t s = call_api_nms t ''get'' ''gateways'' None ''json'' s"

subsection \<open>Sequences of calls\<close>

text \<open>
  A use of the client is a list of calls of its public operations. A call that raises
  leaves the object to the caller like any other, so the run goes on after it.
\<close>

datatype call =
    VersionGet
  | DeviceList "(string \<times> string) list"
  | GetDeviceByMac string
  | GetDeviceCreds string
  | GetGateways

fun perform :: "transport \<Rightarrow> call \<Rightarrow> state \<Rightarrow> (error + pyval) \<times> state" where
  "perform t VersionGet s = version_get t s"
| "perform t (DeviceList kwargs) s = device_list t kwargs s"
| "perform t (GetDeviceByMac mac) s = get_device_by_mac t mac s"
| "perform t (GetDeviceCreds device_id) s = get_device_creds t device_id s"
| "perform t GetGateways s = get_gateways t s"

fun run_calls :: "transport \<Rightarrow> call list \<Rightarrow> state \<Rightarrow> state" where
  "run_calls t [] s = s"
| "run_calls t (c # cs) s = run_calls t cs (snd (perform t c s))"

subsection \<open>Networks used in the statements\<close>

text \<open>
  \<open>answer code body\<close> is a network that answers every request with the status
  \<open>code\<close> and a body that \<^verbatim>\<open>json()\<close> decodes to \<open>body\<close>. \<open>with_status code t\<close> is the
  network \<open>t\<close> with the status of every response replaced by \<open>code\<close>.
\<close>

definition answer :: "int \<Rightarrow> pyval option \<Rightarrow> transport" where
  "answer code body = (\<lambda>log rq. Inr \<lparr>status_code = code, json = body, raw = []\<rparr>)"

definition with_status :: "int \<Rightarrow> transport \<Rightarrow> transport" where
  "with_status code t =
     (\<lambda>log rq. case t log rq of Inl e \<Rightarrow> Inl e | Inr r \<Rightarrow> Inr (r\<lparr>status_code := code\<rparr>))"

section \<open>Properties\<close>

subsection \<open>URL quoting\<close>

lemma hex_digit_mem: "n < 16 \<Longrightarrow> hex_digit n \<in> set ''0123456789ABCDEF''"
  unfolding hex_digit_def by (rule nth_mem) simp

lemma of_char_div16: "(of_char (c::char) :: nat) div 16 < 16"
proof -
  have "(of_char c :: nat) < 16 * 16" using nat_of_char_less_256 [of c] by simp
  then show ?thesis by (simp only: less_mult_imp_div_less)
qed

lemma percent_chars: "set (percent c) \<subseteq> set ''%0123456789ABCDEF''"
  using hex_digit_mem [OF of_char_div16 [of c]]
    hex_digit_mem [of "of_char c mod 16"]
  unfolding percent_def by simp

lemma space_not_in_percent: "CHR '' '' \<notin> set (percent c)"
  using percent_chars [of c] by auto

lemma colon_not_in_percent: "CHR '':'' \<notin> set (percent c)"
  using percent_chars [of c] by auto

lemma colon_not_safe: "CHR '':'' \<notin> set always_safe"
  by (simp add: always_safe_def)

lemma space_not_safe: "CHR '' '' \<notin> set always_safe"
  by (simp add: always_safe_def)

lemma percent_colon: "percent CHR '':'' = ''%3A''"
  by (simp add: percent_def hex_digit_def)

lemma quote_no_space:
  "CHR '' '' \<notin> set s \<Longrightarrow> quote s [] = concat (map qp_char s)"
  unfolding quote_def
  by (rule arg_cong [where f = concat], rule map_cong) (auto simp: qp_char_def)

lemma plus_for_space:
  "map (\<lambda>c. if c = CHR '' '' then CHR ''+'' else c)
     (if c \<in> set always_safe \<union> set '' '' then [c] else percent c) = qp_char c"
proof (cases "c = CHR '' ''")
  case True
  then show ?thesis by (simp add: qp_char_def)
next
  case False
  have "map (\<lambda>c. if c = CHR '' '' then CHR ''+'' else c) (percent c) = percent c"
    using space_not_in_percent [of c] by (intro map_idI) auto
  with False show ?thesis by (simp add: qp_char_def)
qed

lemma quote_plus_concat: "quote_plus s = concat (map qp_char s)"
proof (cases "CHR '' '' \<in> set s")
  case False
  then show ?thesis by (simp add: quote_plus_def quote_no_space)
next
  case True
  have "map (\<lambda>c. if c = CHR '' '' then CHR ''+'' else c) (quote s '' '')
        = concat (map qp_char s)"
    unfolding quote_def map_concat map_map comp_def plus_for_space ..
  with True show ?thesis by (simp add: quote_plus_def)
qed

lemma qp_char_colon: "qp_char CHR '':'' = ''%3A''"
  by (simp add: qp_char_def colon_not_safe percent_colon)

lemma colon_not_in_qp_char: "CHR '':'' \<notin> set (qp_char c)"
  using colon_not_in_percent [of c] colon_not_safe by (auto simp: qp_char_def)

lemma colon_not_in_quote_plus: "CHR '':'' \<notin> set (quote_plus mac)"
  by (simp add: quote_plus_concat colon_not_in_qp_char)

lemma quote_plus_append: "quote_plus (a @ b) = quote_plus a @ quote_plus b"
  by (simp add: quote_plus_concat)

lemma quote_plus_colon: "quote_plus (a @ '':'' @ b) = quote_plus a @ ''%3A'' @ quote_plus b"
  by (simp add: quote_plus_concat qp_char_colon)

text \<open>The same with every definition unfolded: the encoding of one byte, written out.\<close>

lemma quote_plus_bytes:
  "quote_plus mac =
     concat (map (\<lambda>c. if c = CHR '' '' then ''+''
                       else if c \<in> set ''ABCDEFGHIJKLMNOPQRSTUVWXYZabcdefghijklmnopqrstuvwxyz0123456789_.-~''
                       then [c]
                       else [CHR ''%'', ''0123456789ABCDEF'' ! (of_char c div 16),
                             ''0123456789ABCDEF'' ! (of_char c mod 16)]) mac)"
  unfolding quote_plus_concat
  by (rule arg_cong [where f = concat], rule map_cong)
     (simp_all only: qp_char_def always_safe_def percent_def hex_digit_def)

subsection \<open>The configuration is never written\<close>

lemma self_call_api_crm: "self (snd (call_api_crm t m a ps rt s)) = self s"
  by (simp add: call_api_crm_def Let_def split: sum.split option.split)

lemma self_call_api_nms: "self (snd (call_api_nms t m a ps rt s)) = self s"
  by (simp add: call_api_nms_def Let_def split: sum.split option.split)

lemma self_version_get: "self (snd (version_get t s)) = self s"
  using self_call_api_crm [of t "''get''" "''version''" None "''json''" s]
  by (auto simp: version_get_def split: prod.split sum.split)

lemma self_perform: "self (snd (perform t c s)) = self s"
  by (cases c)
     (simp_all add: self_version_get device_list_def get_device_by_mac_def
        get_device_creds_def get_gateways_def self_call_api_nms Let_def)

lemma self_run_calls: "self (run_calls t cs s) = self s"
  by (induction cs arbitrary: s) (simp_all add: self_perform)

text \<open>
  C8. A client built by the constructor from a host, a key, the two API versions and
  the security flag still has exactly these five values after any list of calls of
  \<^verbatim>\<open>version_get\<close>, \<^verbatim>\<open>device_list\<close>, \<^verbatim>\<open>get_device_by_mac\<close>, \<^verbatim>\<open>get_device_creds\<close> and
  \<^verbatim>\<open>get_gateways\<close>, whatever the network answers and whether the calls return or raise.
\<close>

theorem configuration_unchanged:
  "self (run_calls t cs (new_client (init h k cv nv sec))) = init h k cv nv sec
   \<and> server (self (run_calls t cs (new_client (init h k cv nv sec)))) = h
   \<and> app_key (self (run_calls t cs (new_client (init h k cv nv sec)))) = k
   \<and> api_version_crm (self (run_calls t cs (new_client (init h k cv nv sec)))) = cv
   \<and> api_version_nms (self (run_calls t cs (new_client (init h k cv nv sec)))) = nv
   \<and> secure (self (run_calls t cs (new_client (init h k cv nv sec)))) = sec"
  by (simp add: self_run_calls new_client_def init_def)

subsection \<open>Filters of the device list\<close>

lemma update_fresh: "k \<notin> fst ` set al \<Longrightarrow> AList.update k v al = al @ [(k, v)]"
  by (induction al) auto

lemma fold_update_distinct:
  "distinct (map fst kw) \<Longrightarrow> fst ` set kw \<inter> fst ` set acc = {} \<Longrightarrow>
   fold (\<lambda>(key, val) ps. AList.update key val ps) kw acc = acc @ kw"
proof (induction kw arbitrary: acc)
  case Nil
  then show ?case by simp
next
  case (Cons p kw)
  obtain k v where p: "p = (k, v)" by (cases p)
  from Cons.prems p have fresh: "k \<notin> fst ` set acc" by auto
  from Cons.prems p have "distinct (map fst kw)"
    and "fst ` set kw \<inter> fst ` set (acc @ [(k, v)]) = {}" by auto
  then have "fold (\<lambda>(key, val) ps. AList.update key val ps) kw (acc @ [(k, v)])
      = (acc @ [(k, v)]) @ kw" by (rule Cons.IH)
  with fresh p show ?case by (simp add: update_fresh)
qed

text \<open>
  C4. The keyword arguments of \<^verbatim>\<open>device_list\<close> are a dict, so their keys are distinct.
  The one request the call issues goes to \<^verbatim>\<open>/nms/api/{nmsVersion}/devices\<close> and its
  query parameters are exactly the keyword arguments: the same keys with the same
  values in the same order, none added, dropped or renamed.
\<close>

theorem device_list_forwards_filters:
  "distinct (map fst kwargs) \<Longrightarrow>
   snd (device_list t kwargs s) =
     s\<lparr>sent := sent s @
        [\<lparr>url = (if secure (self s) then ''https'' else ''http'') @ ''://'' @ server (self s)
                 @ ''/nms/api/'' @ api_version_nms (self s) @ ''/devices'',
          headers = [(''accept'', ''application/json''), (''x-auth-token'', app_key (self s))],
          params = Some kwargs\<rparr>]\<rparr>"
  by (simp add: device_list_def fold_update_distinct call_api_nms_def build_url_nms_def Let_def
      split: sum.split option.split)

theorem device_list_forwards_filters_witness:
  "distinct (map fst [(''role'', ''ap''), (''siteId'', ''42'')])
   \<and> sent (snd (device_list (answer 200 (Some (PList []))) [(''role'', ''ap''), (''siteId'', ''42'')]
        (new_client (init_default ''uisp.example'' ''key'')))) =
     [\<lparr>url = ''https://uisp.example/nms/api/v2.1/devices'',
       headers = [(''accept'', ''application/json''), (''x-auth-token'', ''key'')],
       params = Some [(''role'', ''ap''), (''siteId'', ''42'')]\<rparr>]"
  using device_list_forwards_filters [of "[(''role'', ''ap''), (''siteId'', ''42'')]"
      "answer 200 (Some (PList []))" "new_client (init_default ''uisp.example'' ''key'')"]
  by (simp add: new_client_def init_default_def init_def)

subsection \<open>The request helpers\<close>

text \<open>
  C7. For every configuration and sub-path the CRM helper's URL is
  \<^verbatim>\<open>{protocol}://{host}/crm/api/{crmVersion}/{path}\<close> and the NMS helper's is
  \<^verbatim>\<open>{protocol}://{host}/nms/api/{nmsVersion}/{path}\<close>, with \<^verbatim>\<open>https\<close> for the protocol when
  the security flag is set and \<^verbatim>\<open>http\<close> otherwise. The request of a CRM GET carries the
  key in the header \<^verbatim>\<open>X-Auth-App-Key\<close> (next to a \<^verbatim>\<open>Content-Type\<close> header); the request
  of the NMS helper carries \<^verbatim>\<open>accept: application/json\<close> and the key in \<^verbatim>\<open>x-auth-token\<close>.
\<close>

theorem helpers_build_url_and_headers:
  "build_url_crm c sub_path =
     (if secure c then ''https'' else ''http'') @ ''://'' @ server c
       @ ''/crm/api/'' @ api_version_crm c @ ''/'' @ sub_path
   \<and> build_url_nms c sub_path =
     (if secure c then ''https'' else ''http'') @ ''://'' @ server c
       @ ''/nms/api/'' @ api_version_nms c @ ''/'' @ sub_path
   \<and> sent (snd (call_api_crm t ''get'' sub_path ps rt s)) =
     sent s @ [\<lparr>url = build_url_crm (self s) sub_path,
                headers = [(''Content-Type'', ''application/json''),
                           (''X-Auth-App-Key'', app_key (self s))],
                params = ps\<rparr>]
   \<and> sent (snd (call_api_nms t m sub_path ps rt s)) =
     sent s @ [\<lparr>url = build_url_nms (self s) sub_path,
                headers = [(''accept'', ''application/json''),
                           (''x-auth-token'', app_key (self s))],
                params = ps\<rparr>]"
proof (intro conjI)
  show "build_url_crm c sub_path =
     (if secure c then ''https'' else ''http'') @ ''://'' @ server c
       @ ''/crm/api/'' @ api_version_crm c @ ''/'' @ sub_path"
    by (simp add: build_url_crm_def)
  show "build_url_nms c sub_path =
     (if secure c then ''https'' else ''http'') @ ''://'' @ server c
       @ ''/nms/api/'' @ api_version_nms c @ ''/'' @ sub_path"
    by (simp add: build_url_nms_def)
  show "sent (snd (call_api_crm t ''get'' sub_path ps rt s)) =
     sent s @ [\<lparr>url = build_url_crm (self s) sub_path,
                headers = [(''Content-Type'', ''application/json''),
                           (''X-Auth-App-Key'', app_key (self s))],
                params = ps\<rparr>]"
    by (simp add: call_api_crm_def Let_def split: sum.split option.split)
  show "sent (snd (call_api_nms t m sub_path ps rt s)) =
     sent s @ [\<lparr>url = build_url_nms (self s) sub_path,
                headers = [(''accept'', ''application/json''),
                           (''x-auth-token'', app_key (self s))],
                params = ps\<rparr>]"
    by (simp add: call_api_nms_def Let_def split: sum.split option.split)
qed

text \<open>
  A CRM GET answered with status 500 and a body that is not JSON raises: \<^verbatim>\<open>json()\<close>
  fails on the body, so the unsupported-verb check is not the only thing that can
  fail in a CRM call.
\<close>

theorem crm_get_non_json_500_raises:
  "fst (call_api_crm (answer 500 None) ''get'' ''version'' None ''json''
          (new_client (init_default ''uisp.example'' ''key''))) = Inl JSONDecodeError"
  by (simp add: call_api_crm_def answer_def Let_def)

text \<open>
  C6. The status of the response plays no part in a CRM call: replacing the status of
  every response by any other changes neither the result nor the state, for every
  method and return type. For a CRM GET with the return type \<^verbatim>\<open>'json'\<close> that receives a
  response, whatever its status, the decoded body is returned when the body decodes,
  and \<^verbatim>\<open>json()\<close> raises when it does not.
\<close>

theorem crm_get_outcome_ignores_status:
  "call_api_crm (with_status code t) m api_call ps rt s = call_api_crm t m api_call ps rt s
   \<and> (t (sent s)
        \<lparr>url = build_url_crm (self s) api_call,
         headers = [(''Content-Type'', ''application/json''),
                    (''X-Auth-App-Key'', app_key (self s))],
         params = ps\<rparr> = Inr r
      \<longrightarrow> fst (call_api_crm (with_status code t) ''get'' api_call ps ''json'' s) =
            (case json r of Some j \<Rightarrow> Inr j | None \<Rightarrow> Inl JSONDecodeError))"
  by (simp add: call_api_crm_def with_status_def Let_def split: sum.split option.split)

theorem crm_get_outcome_ignores_status_witness:
  "fst (call_api_crm (with_status 500 (answer 200 (Some (PDict [(''code'', PInt 500)]))))
          ''get'' ''clients'' None ''json'' (new_client (init_default ''uisp.example'' ''key'')))
     = Inr (PDict [(''code'', PInt 500)])
   \<and> fst (call_api_crm (with_status 404 (answer 200 None))
          ''get'' ''clients'' None ''json'' (new_client (init_default ''uisp.example'' ''key'')))
     = Inl JSONDecodeError"
  using crm_get_outcome_ignores_status
      [of 500 "answer 200 (Some (PDict [(''code'', PInt 500)]))" "''get''" "''clients''" None
          "''json''" "new_client (init_default ''uisp.example'' ''key'')"
          "\<lparr>status_code = 200, json = Some (PDict [(''code'', PInt 500)]), raw = []\<rparr>",
       THEN conjunct2]
    crm_get_outcome_ignores_status
      [of 404 "answer 200 None" "''get''" "''clients''" None
          "''json''" "new_client (init_default ''uisp.example'' ''key'')"
          "\<lparr>status_code = 200, json = None, raw = []\<rparr>", THEN conjunct2]
  by (simp add: answer_def)

text \<open>
  C10. A CRM GET with a return type other than \<^verbatim>\<open>'json'\<close> issues its request and, once the
  response is there, returns \<^verbatim>\<open>None\<close>: the response is not handed back and no error is
  raised.
\<close>

theorem crm_get_other_return_type_gives_none:
  "return_type \<noteq> ''json'' \<Longrightarrow>
   t (sent s)
     \<lparr>url = build_url_crm (self s) api_call,
      headers = [(''Content-Type'', ''application/json''),
                 (''X-Auth-App-Key'', app_key (self s))],
      params = ps\<rparr> = Inr r \<Longrightarrow>
   call_api_crm t ''get'' api_call ps return_type s =
     (Inr PNone, s\<lparr>sent := sent s @
        [\<lparr>url = build_url_crm (self s) api_call,
          headers = [(''Content-Type'', ''application/json''),
                     (''X-Auth-App-Key'', app_key (self s))],
          params = ps\<rparr>]\<rparr>)"
  by (simp add: call_api_crm_def Let_def)

theorem crm_get_other_return_type_gives_none_witness:
  "''raw'' \<noteq> ''json''
   \<and> call_api_crm (answer 200 (Some (PDict [(''version'', PStr ''1.4.8'')]))) ''get'' ''version''
        None ''raw'' (new_client (init_default ''uisp.example'' ''key''))
     = (Inr PNone,
        \<lparr>self = init_default ''uisp.example'' ''key'',
         sent = [\<lparr>url = ''https://uisp.example/crm/api/v1.0/version'',
                  headers = [(''Content-Type'', ''application/json''),
                             (''X-Auth-App-Key'', ''key'')],
                  params = None\<rparr>]\<rparr>)"
  using crm_get_other_return_type_gives_none
      [of "''raw''" "answer 200 (Some (PDict [(''version'', PStr ''1.4.8'')]))"
          "new_client (init_default ''uisp.example'' ''key'')" "''version''" None
          "\<lparr>status_code = 200, json = Some (PDict [(''version'', PStr ''1.4.8'')]), raw = []\<rparr>"]
  by (simp add: answer_def new_client_def init_default_def init_def build_url_crm_def)

text \<open>
  The CRM helper refuses every method other than \<^verbatim>\<open>'get'\<close> with an \<^verbatim>\<open>APIException\<close> and
  leaves the log of requests as it was.
\<close>

lemma crm_rejects_other_methods:
  "call_method \<noteq> ''get'' \<Longrightarrow>
   (\<exists>msg. call_api_crm t call_method api_call ps rt s = (Inl (APIException msg), s))"
  by (simp add: call_api_crm_def Let_def)

text \<open>
  C2. The NMS helper does not do the same. Called with the method \<^verbatim>\<open>'post'\<close> against a
  server that answers 200 with an empty JSON list, it issues its GET request and
  returns the list; no unsupported-method error is raised.
\<close>

theorem nms_post_issues_get:
  "call_api_nms (answer 200 (Some (PList []))) ''post'' ''devices'' None ''json''
       (new_client (init_default ''uisp.example'' ''key''))
     = (Inr (PList []),
        \<lparr>self = init_default ''uisp.example'' ''key'',
         sent = [\<lparr>url = ''https://uisp.example/nms/api/v2.1/devices'',
                  headers = [(''accept'', ''application/json''), (''x-auth-token'', ''key'')],
                  params = None\<rparr>]\<rparr>)"
  by (simp add: call_api_nms_def answer_def build_url_nms_def new_client_def
      init_default_def init_def Let_def)

text \<open>
  On any status other than 200 the NMS helper raises \<^verbatim>\<open>RuntimeError\<close>, always with the
  one message \<open>nms_error_message\<close>.
\<close>

lemma nms_non_200_raises:
  "t (sent s)
     \<lparr>url = build_url_nms (self s) api_call,
      headers = [(''accept'', ''application/json''), (''x-auth-token'', app_key (self s))],
      params = ps\<rparr> = Inr r \<Longrightarrow>
   status_code r \<noteq> 200 \<Longrightarrow>
   fst (call_api_nms t m api_call ps rt s) = Inl (RuntimeError nms_error_message)"
  by (simp add: call_api_nms_def Let_def)

text \<open>
  C1. A status other than 200 makes an NMS operation raise \<^verbatim>\<open>RuntimeError\<close>, but the
  message is the string of the source as it is written, placeholder included: for a
  404 and for a 500 answer to \<^verbatim>\<open>get_gateways\<close> it is the same text and names neither
  status.
\<close>

theorem nms_error_message_omits_status:
  "fst (get_gateways (answer 404 None) (new_client (init_default ''uisp.example'' ''key'')))
     = Inl (RuntimeError ''Got error '{r.status_code}' while executing request'')
   \<and> fst (get_gateways (answer 500 None) (new_client (init_default ''uisp.example'' ''key'')))
     = fst (get_gateways (answer 404 None) (new_client (init_default ''uisp.example'' ''key'')))"
  by (simp add: get_gateways_def call_api_nms_def answer_def nms_error_message_def Let_def)

subsection \<open>Results of the public operations\<close>

text \<open>
  C3. \<^verbatim>\<open>version_get\<close> issues one GET to \<^verbatim>\<open>/crm/api/{crmVersion}/version\<close>. When the
  response decodes to a dict with the key \<^verbatim>\<open>version\<close>, the call returns exactly the value
  stored under it; when the key is missing it raises \<^verbatim>\<open>KeyError\<close>, and when the decoded
  value is no dict, and so has no such field, it raises \<^verbatim>\<open>TypeError\<close>.
\<close>

theorem version_get_returns_version_field:
  "t (sent s)
     \<lparr>url = (if secure (self s) then ''https'' else ''http'') @ ''://'' @ server (self s)
              @ ''/crm/api/'' @ api_version_crm (self s) @ ''/version'',
      headers = [(''Content-Type'', ''application/json''),
                 (''X-Auth-App-Key'', app_key (self s))],
      params = None\<rparr> = Inr r \<Longrightarrow>
   json r = Some j \<Longrightarrow>
   version_get t s =
     (case j of
        PDict kvs \<Rightarrow> (case map_of kvs ''version'' of
                       Some v \<Rightarrow> Inr v
                     | None \<Rightarrow> Inl (KeyError ''version''))
      | _ \<Rightarrow> Inl TypeError,
      s\<lparr>sent := sent s @
        [\<lparr>url = (if secure (self s) then ''https'' else ''http'') @ ''://'' @ server (self s)
                 @ ''/crm/api/'' @ api_version_crm (self s) @ ''/version'',
          headers = [(''Content-Type'', ''application/json''),
                     (''X-Auth-App-Key'', app_key (self s))],
          params = None\<rparr>]\<rparr>)"
  by (cases j) (simp_all add: version_get_def call_api_crm_def build_url_crm_def Let_def
      split: option.split)

theorem version_get_returns_version_field_witness:
  "fst (version_get (answer 200 (Some (PDict [(''version'', PStr ''1.4.8'')])))
          (new_client (init_default ''uisp.example'' ''key''))) = Inr (PStr ''1.4.8'')
   \<and> fst (version_get (answer 200 (Some (PDict [(''code'', PInt 401)])))
          (new_client (init_default ''uisp.example'' ''key''))) = Inl (KeyError ''version'')"
  using version_get_returns_version_field
      [of "answer 200 (Some (PDict [(''version'', PStr ''1.4.8'')]))"
          "new_client (init_default ''uisp.example'' ''key'')"
          "\<lparr>status_code = 200, json = Some (PDict [(''version'', PStr ''1.4.8'')]), raw = []\<rparr>"
          "PDict [(''version'', PStr ''1.4.8'')]"]
    version_get_returns_version_field
      [of "answer 200 (Some (PDict [(''code'', PInt 401)]))"
          "new_client (init_default ''uisp.example'' ''key'')"
          "\<lparr>status_code = 200, json = Some (PDict [(''code'', PInt 401)]), raw = []\<rparr>"
          "PDict [(''code'', PInt 401)]"]
  by (simp add: answer_def)

text \<open>
  C5. \<^verbatim>\<open>get_device_by_mac\<close> issues one GET whose path ends in \<^verbatim>\<open>devices/mac/\<close> followed by
  the URL-encoded MAC: byte by byte, a space becomes \<^verbatim>\<open>+\<close>, a letter, a digit and each of
  \<^verbatim>\<open>_.-~\<close> stays, and every other byte becomes \<^verbatim>\<open>%\<close> and its two upper-case hexadecimal
  digits. No colon is left in the encoded MAC, each colon of the MAC stands there as
  \<^verbatim>\<open>%3A\<close>, and for \<^verbatim>\<open>AA:BB:CC:DD:EE:FF\<close> the path ends in
  \<^verbatim>\<open>devices/mac/AA%3ABB%3ACC%3ADD%3AEE%3AFF\<close>.
\<close>

theorem get_device_by_mac_quotes_mac:
  "snd (get_device_by_mac t mac s) =
     s\<lparr>sent := sent s @
        [\<lparr>url = (if secure (self s) then ''https'' else ''http'') @ ''://'' @ server (self s)
                 @ ''/nms/api/'' @ api_version_nms (self s) @ ''/devices/mac/''
                 @ concat (map (\<lambda>c. if c = CHR '' '' then ''+''
                       else if c \<in> set ''ABCDEFGHIJKLMNOPQRSTUVWXYZabcdefghijklmnopqrstuvwxyz0123456789_.-~''
                       then [c]
                       else [CHR ''%'', ''0123456789ABCDEF'' ! (of_char c div 16),
                             ''0123456789ABCDEF'' ! (of_char c mod 16)]) mac),
          headers = [(''accept'', ''application/json''), (''x-auth-token'', app_key (self s))],
          params = None\<rparr>]\<rparr>
   \<and> CHR '':'' \<notin> set (quote_plus mac)
   \<and> quote_plus (a @ '':'' @ b) = quote_plus a @ ''%3A'' @ quote_plus b
   \<and> sent (snd (get_device_by_mac t ''AA:BB:CC:DD:EE:FF''
              (new_client (init_default ''uisp.example'' ''key'')))) =
        [\<lparr>url = ''https://uisp.example/nms/api/v2.1/devices/mac/AA%3ABB%3ACC%3ADD%3AEE%3AFF'',
          headers = [(''accept'', ''application/json''), (''x-auth-token'', ''key'')],
          params = None\<rparr>]"
proof (intro conjI)
  have sent_eq: "snd (get_device_by_mac t m s') =
     s'\<lparr>sent := sent s' @
        [\<lparr>url = (if secure (self s') then ''https'' else ''http'') @ ''://'' @ server (self s')
                 @ ''/nms/api/'' @ api_version_nms (self s') @ ''/devices/mac/'' @ quote_plus m,
          headers = [(''accept'', ''application/json''), (''x-auth-token'', app_key (self s'))],
          params = None\<rparr>]\<rparr>" for m s'
    by (simp add: get_device_by_mac_def call_api_nms_def build_url_nms_def Let_def
        split: sum.split option.split)
  show "snd (get_device_by_mac t mac s) =
     s\<lparr>sent := sent s @
        [\<lparr>url = (if secure (self s) then ''https'' else ''http'') @ ''://'' @ server (self s)
                 @ ''/nms/api/'' @ api_version_nms (self s) @ ''/devices/mac/''
                 @ concat (map (\<lambda>c. if c = CHR '' '' then ''+''
                       else if c \<in> set ''ABCDEFGHIJKLMNOPQRSTUVWXYZabcdefghijklmnopqrstuvwxyz0123456789_.-~''
                       then [c]
                       else [CHR ''%'', ''0123456789ABCDEF'' ! (of_char c div 16),
                             ''0123456789ABCDEF'' ! (of_char c mod 16)]) mac),
          headers = [(''accept'', ''application/json''), (''x-auth-token'', app_key (self s))],
          params = None\<rparr>]\<rparr>"
    unfolding sent_eq [of mac s] quote_plus_bytes [of mac] ..
  show "CHR '':'' \<notin> set (quote_plus mac)"
    by (rule colon_not_in_quote_plus)
  show "quote_plus (a @ '':'' @ b) = quote_plus a @ ''%3A'' @ quote_plus b"
    by (rule quote_plus_colon)
  have "quote_plus ''AA:BB:CC:DD:EE:FF'' = ''AA%3ABB%3ACC%3ADD%3AEE%3AFF''"
    by (simp add: quote_plus_def quote_def always_safe_def percent_def hex_digit_def)
  then show "sent (snd (get_device_by_mac t ''AA:BB:CC:DD:EE:FF''
              (new_client (init_default ''uisp.example'' ''key'')))) =
        [\<lparr>url = ''https://uisp.example/nms/api/v2.1/devices/mac/AA%3ABB%3ACC%3ADD%3AEE%3AFF'',
          headers = [(''accept'', ''application/json''), (''x-auth-token'', ''key'')],
          params = None\<rparr>]"
    unfolding sent_eq by (simp add: new_client_def init_default_def init_def)
qed

lemma quote_plus_mac_example:
  "quote_plus ''AA:BB:CC:DD:EE:FF'' = ''AA%3ABB%3ACC%3ADD%3AEE%3AFF''"
  by (simp add: quote_plus_def quote_def always_safe_def percent_def hex_digit_def)

lemma nms_returns_json:
  "t (sent s)
     \<lparr>url = build_url_nms (self s) api_call,
      headers = [(''accept'', ''application/json''), (''x-auth-token'', app_key (self s))],
      params = ps\<rparr> = Inr r \<Longrightarrow>
   status_code r = 200 \<Longrightarrow> json r = Some j \<Longrightarrow>
   call_api_nms t m api_call ps ''json'' s =
     (Inr j, s\<lparr>sent := sent s @
        [\<lparr>url = build_url_nms (self s) api_call,
          headers = [(''accept'', ''application/json''), (''x-auth-token'', app_key (self s))],
          params = ps\<rparr>]\<rparr>)"
  by (simp add: call_api_nms_def Let_def)

text \<open>
  C9. \<^verbatim>\<open>get_device_creds\<close> issues one GET to the NMS path
  \<^verbatim>\<open>vault/{deviceId}/credentials\<close> and \<^verbatim>\<open>get_gateways\<close> one to the NMS path \<^verbatim>\<open>gateways\<close>;
  when the answer has status 200 and a body that decodes to a value, each returns
  that value unchanged.
\<close>

theorem creds_and_gateways_return_json:
  "(t (sent s)
      \<lparr>url = build_url_nms (self s) (''vault/'' @ device_id @ ''/credentials''),
       headers = [(''accept'', ''application/json''), (''x-auth-token'', app_key (self s))],
       params = None\<rparr> = Inr r \<and> status_code r = 200 \<and> json r = Some j
    \<longrightarrow> get_device_creds t device_id s =
      (Inr j, s\<lparr>sent := sent s @
         [\<lparr>url = build_url_nms (self s) (''vault/'' @ device_id @ ''/credentials''),
           headers = [(''accept'', ''application/json''), (''x-auth-token'', app_key (self s))],
           params = None\<rparr>]\<rparr>))
   \<and> (t (sent s)
      \<lparr>url = build_url_nms (self s) ''gateways'',
       headers = [(''accept'', ''application/json''), (''x-auth-token'', app_key (self s))],
       params = None\<rparr> = Inr r' \<and> status_code r' = 200 \<and> json r' = Some j'
    \<longrightarrow> get_gateways t s =
      (Inr j', s\<lparr>sent := sent s @
         [\<lparr>url = build_url_nms (self s) ''gateways'',
           headers = [(''accept'', ''application/json''), (''x-auth-token'', app_key (self s))],
           params = None\<rparr>]\<rparr>))"
  by (simp add: get_device_creds_def get_gateways_def nms_returns_json)

theorem creds_and_gateways_return_json_witness:
  "get_device_creds (answer 200 (Some (PDict [(''isPassphraseMissing'', PBool False)])))
      ''d7'' (new_client (init_default ''uisp.example'' ''key''))
     = (Inr (PDict [(''isPassphraseMissing'', PBool False)]),
        \<lparr>self = init_default ''uisp.example'' ''key'',
         sent = [\<lparr>url = ''https://uisp.example/nms/api/v2.1/vault/d7/credentials'',
                  headers = [(''accept'', ''application/json''), (''x-auth-token'', ''key'')],
                  params = None\<rparr>]\<rparr>)
   \<and> get_gateways (answer 200 (Some (PDict [(''isPassphraseMissing'', PBool False)])))
      (new_client (init_default ''uisp.example'' ''key''))
     = (Inr (PDict [(''isPassphraseMissing'', PBool False)]),
        \<lparr>self = init_default ''uisp.example'' ''key'',
         sent = [\<lparr>url = ''https://uisp.example/nms/api/v2.1/gateways'',
                  headers = [(''accept'', ''application/json''), (''x-auth-token'', ''key'')],
                  params = None\<rparr>]\<rparr>)"
  using creds_and_gateways_return_json
      [of "answer 200 (Some (PDict [(''isPassphraseMissing'', PBool False)]))"
          "new_client (init_default ''uisp.example'' ''key'')" "''d7''"
          "\<lparr>status_code = 200, json = Some (PDict [(''isPassphraseMissing'', PBool False)]), raw = []\<rparr>"
          "PDict [(''isPassphraseMissing'', PBool False)]"
          "\<lparr>status_code = 200, json = Some (PDict [(''isPassphraseMissing'', PBool False)]), raw = []\<rparr>"
          "PDict [(''isPassphraseMissing'', PBool False)]"]
  by (simp add: answer_def new_client_def init_default_def init_def build_url_nms_def)

end
